theory Spec2Isabelle
  imports Main
begin

section \<open>Orchestrator objects\<close>

text \<open>
  The fields of \<open>v1.Pod\<close> and \<open>v1.Node\<close> that the scheduling context reads or writes.
  A Go map whose iteration order does not matter to the code (labels, resource quantities)
  is an association list read through \<open>map_of\<close>.
\<close>

datatype PodPhase = PodPending | PodRunning | PodSucceeded | PodFailed | PodUnknown

record Pod =
  pod_Name :: string
  pod_Namespace :: string
  pod_UID :: string
  pod_Labels :: "(string \<times> string) list"
  pod_NodeName :: string
  pod_Phase :: PodPhase

type_synonym Resource = "(string \<times> int) list"

record Node =
  node_Name :: string
  node_UID :: string
  node_Unschedulable :: bool
  node_Allocatable :: Resource

section \<open>Events, requests and the outside world\<close>

datatype ApplicationState =
  New | Recovering | Submitted | Accepted | Running | Rejected | Completed
  | Killing | Killed | Failed

datatype ApplicationEventType =
  SubmitApplication | RecoverApplication | AcceptApplication | RunApplication
  | RejectApplication | CompleteApplication | FailApplication | KillApplication
  | KilledApplication

datatype TaskState = Task_New | Task_Pending | Task_Scheduling | Task_Allocated
  | Task_Bound | Task_Completed | Task_Failed | Task_Rejected

datatype NodeState = Node_New | Node_Recovering | Node_Healthy | Node_Unhealthy
  | Node_Draining | Node_Decommissioned

datatype SchedulerNodeEventType = RecoverNode | DrainNode | RestoreNode

text \<open>The events handed to \<open>dispatcher.Dispatch\<close>: the target's id and the verb.\<close>

datatype SchedulingEvent =
  ApplicationEvent string ApplicationEventType
  | CachedSchedulerNodeEvent string SchedulerNodeEventType

record AddApplicationRequest_si =
  si_ApplicationID :: string
  si_QueueName :: string
  si_PartitionName :: string
  si_User :: string
  si_Tags :: "(string \<times> string) list"

record UpdateNodeInfo =
  uni_NodeID :: string
  uni_SchedulableResource :: Resource

record UpdateRequest =
  NewApplications :: "AddApplicationRequest_si list"
  UpdatedNodes :: "UpdateNodeInfo list"
  RmID :: string

datatype fsm_error = InvalidEventError | UnknownEventError | NoTransitionError

datatype error = FsmError fsm_error | RemoteError string | TaskNotFound string string

text \<open>
  Everything outside the shim's own objects that the code below touches: the dispatcher's
  queue, the requests sent to scheduler-core through \<open>SchedulerAPI.Update\<close> together with
  the answer scheduler-core gives to each, the completion-handler goroutines launched
  with \<open>go\<close> (the application id and the driver pod each closure captured), and the
  cluster id of the process-wide configuration.
\<close>

record World =
  dispatched :: "SchedulingEvent list"
  updates :: "UpdateRequest list"
  core :: "UpdateRequest \<Rightarrow> error option"
  goroutines :: "(string \<times> Pod) list"
  conf_ClusterID :: string

text \<open>
  Modelled from the spec: \<open>dispatcher.Dispatch\<close> (package dispatcher is not among the
  sources). The dispatcher is an asynchronous FIFO event bus; dispatching enqueues the
  event for the consumer of its kind and returns nothing to the caller.
\<close>

definition Dispatch :: "SchedulingEvent \<Rightarrow> World \<Rightarrow> World" where
  "Dispatch ev w = w\<lparr>dispatched := dispatched w @ [ev]\<rparr>"

text \<open>\<open>SchedulerAPI.Update\<close>: the remote call; the request is sent and the peer's answer returned.\<close>

definition SchedulerAPI_Update :: "UpdateRequest \<Rightarrow> World \<Rightarrow> error option \<times> World" where
  "SchedulerAPI_Update request w = (core w request, w\<lparr>updates := updates w @ [request]\<rparr>)"

section \<open>The state-machine engine\<close>

text \<open>
  Modelled from the spec: the engine behind \<open>fsm.NewFSM\<close>, \<open>Event\<close> and \<open>Can\<close> (an
  external library, not among the sources). A machine is a current state and a set of
  transitions \<open>{verb, fromStates \<rightarrow> toState}\<close>. \<open>Can\<close> is a pure predicate: the verb has a
  transition from the current state. Firing a verb with no transition from the current
  state is an error and changes nothing; firing one whose target is the current state
  reports the \<open>no transition\<close> sentinel, and any other defined transition commits the
  target state. The verb's callback runs in the last two cases.
\<close>

record ('s, 'e) EventDesc =
  Name :: 'e
  Src :: "'s list"
  Dst :: 's

definition transitions :: "('s, 'e) EventDesc list \<Rightarrow> ('e \<times> 's) \<rightharpoonup> 's" where
  "transitions evs =
     fold (\<lambda>e m. fold (\<lambda>src m'. m'((Name e, src) \<mapsto> Dst e)) (Src e) m) evs Map.empty"

definition fsm_Can :: "('s, 'e) EventDesc list \<Rightarrow> 's \<Rightarrow> 'e \<Rightarrow> bool" where
  "fsm_Can evs cur ev = (transitions evs (ev, cur) \<noteq> None)"

text \<open>The result: the error if any, the state afterwards, and whether the callback runs.\<close>

definition fsm_Event :: "('s, 'e) EventDesc list \<Rightarrow> 's \<Rightarrow> 'e \<Rightarrow> fsm_error option \<times> 's \<times> bool" where
  "fsm_Event evs cur ev =
     (case transitions evs (ev, cur) of
        None \<Rightarrow>
          (if list_ex (\<lambda>e. Name e = ev \<and> Src e \<noteq> []) evs
           then (Some InvalidEventError, cur, False)
           else (Some UnknownEventError, cur, False))
      | Some dst \<Rightarrow>
          (if cur = dst then (Some NoTransitionError, cur, True)
           else (None, dst, True)))"

section \<open>Application\<close>

record Task =
  taskID :: string
  task_applicationID :: string
  task_pod :: Pod
  task_nodeName :: string
  task_sm :: TaskState

record CompletionHandler =
  running :: bool
  completeFn :: "(string \<times> Pod) option"

text \<open>
  \<open>sm\<close> is the current state of the application's machine; its transition table and
  callbacks are the same for every application and are the constants below. The
  scheduler API every application points to is the one of \<open>World\<close>. The closure
  \<open>completeFn\<close> is represented by what it captures.
\<close>

record Application =
  applicationID :: string
  queue :: string
  partition :: string
  user :: string
  taskMap :: "string \<rightharpoonup> Task"
  tags :: "(string \<times> string) list"
  sm :: ApplicationState
  ch :: CompletionHandler

definition DefaultPartition :: string where
  "DefaultPartition = ''default''"

definition application_events :: "(ApplicationState, ApplicationEventType) EventDesc list" where
  "application_events =
     [\<lparr>Name = SubmitApplication, Src = [New], Dst = Submitted\<rparr>,
      \<lparr>Name = RecoverApplication, Src = [New], Dst = Recovering\<rparr>,
      \<lparr>Name = AcceptApplication, Src = [Submitted, Recovering], Dst = Accepted\<rparr>,
      \<lparr>Name = RunApplication, Src = [Accepted, Running], Dst = Running\<rparr>,
      \<lparr>Name = CompleteApplication, Src = [Running], Dst = Completed\<rparr>,
      \<lparr>Name = RejectApplication, Src = [Submitted], Dst = Rejected\<rparr>,
      \<lparr>Name = FailApplication, Src = [Submitted, Rejected, Accepted, Running], Dst = Failed\<rparr>,
      \<lparr>Name = KillApplication, Src = [Accepted, Running], Dst = Killing\<rparr>,
      \<lparr>Name = KilledApplication, Src = [Killing], Dst = Killed\<rparr>]"

definition NewApplication ::
  "string \<Rightarrow> string \<Rightarrow> string \<Rightarrow> (string \<times> string) list \<Rightarrow> Application" where
  "NewApplication appID queueName usr tgs =
     \<lparr>applicationID = appID, queue = queueName, partition = DefaultPartition, user = usr,
      taskMap = Map.empty, tags = tgs, sm = New,
      ch = \<lparr>running = False, completeFn = None\<rparr>\<rparr>"

definition submitRequest :: "Application \<Rightarrow> World \<Rightarrow> UpdateRequest" where
  "submitRequest app w =
     \<lparr>NewApplications =
        [\<lparr>si_ApplicationID = applicationID app, si_QueueName = queue app,
          si_PartitionName = partition app, si_User = user app, si_Tags = tags app\<rparr>],
      UpdatedNodes = [], RmID = conf_ClusterID w\<rparr>"

definition handleSubmitApplicationEvent :: "Application \<Rightarrow> World \<Rightarrow> World" where
  "handleSubmitApplicationEvent app w =
     (case SchedulerAPI_Update (submitRequest app w) w of
        (Some err, w') \<Rightarrow> Dispatch (ApplicationEvent (applicationID app) FailApplication) w'
      | (None, w') \<Rightarrow> w')"

definition handleRecoverApplicationEvent :: "Application \<Rightarrow> World \<Rightarrow> World" where
  "handleRecoverApplicationEvent app w =
     (case SchedulerAPI_Update (submitRequest app w) w of
        (Some err, w') \<Rightarrow> Dispatch (ApplicationEvent (applicationID app) FailApplication) w'
      | (None, w') \<Rightarrow> w')"

definition handleRejectApplicationEvent :: "Application \<Rightarrow> World \<Rightarrow> World" where
  "handleRejectApplicationEvent app w =
     Dispatch (ApplicationEvent (applicationID app) FailApplication) w"

definition handleCompleteApplicationEvent :: "Application \<Rightarrow> World \<Rightarrow> World" where
  "handleCompleteApplicationEvent app w = w"

text \<open>The \<open>fsm.Callbacks\<close> table of \<open>NewApplication\<close>; a verb without an entry has no callback.\<close>

fun application_callbacks :: "ApplicationEventType \<Rightarrow> Application \<Rightarrow> World \<Rightarrow> World" where
  "application_callbacks SubmitApplication app w = handleSubmitApplicationEvent app w"
| "application_callbacks RecoverApplication app w = handleRecoverApplicationEvent app w"
| "application_callbacks RejectApplication app w = handleRejectApplicationEvent app w"
| "application_callbacks CompleteApplication app w = handleCompleteApplicationEvent app w"
| "application_callbacks ev app w = w"

text \<open>
  \<open>Application.handle\<close>: fire the event on the machine; the \<open>no transition\<close> error is
  swallowed, any other error is returned.
\<close>

definition Application_handle ::
  "Application \<Rightarrow> ApplicationEventType \<Rightarrow> World \<Rightarrow> error option \<times> Application \<times> World" where
  "Application_handle app ev w =
     (case fsm_Event application_events (sm app) ev of
        (err, st, fire) \<Rightarrow>
          (let w' = (if fire then application_callbacks ev app w else w);
               app' = app\<lparr>sm := st\<rparr>
           in if err \<noteq> None \<and> err \<noteq> Some NoTransitionError
              then (map_option FsmError err, app', w')
              else (None, app', w')))"

definition Application_canHandle :: "Application \<Rightarrow> ApplicationEventType \<Rightarrow> bool" where
  "Application_canHandle app ev = fsm_Can application_events (sm app) ev"

text \<open>\<open>Application.GetTask\<close> and \<open>Application.AddTask\<close>; a duplicate task id is skipped.\<close>

definition Application_GetTask :: "Application \<Rightarrow> string \<Rightarrow> error + Task" where
  "Application_GetTask app tid =
     (case taskMap app tid of
        Some task \<Rightarrow> Inr task
      | None \<Rightarrow> Inl (TaskNotFound tid (applicationID app)))"

definition Application_AddTask :: "Application \<Rightarrow> Task \<Rightarrow> Application" where
  "Application_AddTask app task =
     (if taskMap app (taskID task) \<noteq> None then app
      else app\<lparr>taskMap := (taskMap app)(taskID task \<mapsto> task)\<rparr>)"

text \<open>
  Modelled from the spec: \<open>NewTask\<close> and \<open>Task.setAllocated\<close> (the task's source file is
  not among the sources). A task is created in state \<open>New\<close> with a back-reference to its
  application by id; in recovery it is marked \<open>Allocated\<close> with the pod's node.
\<close>

definition NewTask :: "string \<Rightarrow> Application \<Rightarrow> Pod \<Rightarrow> Task" where
  "NewTask tid app pod =
     \<lparr>taskID = tid, task_applicationID = applicationID app, task_pod = pod,
      task_nodeName = [], task_sm = Task_New\<rparr>"

definition setAllocated :: "Task \<Rightarrow> string \<Rightarrow> Task" where
  "setAllocated task nodeName = task\<lparr>task_nodeName := nodeName, task_sm := Task_Allocated\<rparr>"

subsection \<open>Completion handler\<close>

text \<open>
  Modelled from the spec: the label constants \<open>common.SparkLabelRole\<close> and
  \<open>common.SparkLabelRoleDriver\<close> (package common is not among the sources): the driver
  is the pod labelled \<open>role=driver\<close>.
\<close>

definition SparkLabelRole :: string where
  "SparkLabelRole = ''role''"

definition SparkLabelRoleDriver :: string where
  "SparkLabelRoleDriver = ''driver''"

text \<open>
  \<open>CompletionHandler.start\<close>: \<open>go ch.completeFn()\<close> unless the handler is running. A nil
  \<open>completeFn\<close> cannot reach this call: the only caller has just built the closure.
\<close>

definition CompletionHandler_start :: "CompletionHandler \<Rightarrow> World \<Rightarrow> World" where
  "CompletionHandler_start h w =
     (if \<not> running h
      then (case completeFn h of
              Some c \<Rightarrow> w\<lparr>goroutines := goroutines w @ [c]\<rparr>
            | None \<Rightarrow> w)
      else w)"

definition Application_startSparkCompletionHandler ::
  "Application \<Rightarrow> Pod \<Rightarrow> World \<Rightarrow> Application \<times> World" where
  "Application_startSparkCompletionHandler app pod w =
     (if running (ch app) then (app, w)
      else (let app' = app\<lparr>ch := \<lparr>running = False, completeFn = Some (applicationID app, pod)\<rparr>\<rparr>
            in (app', CompletionHandler_start (ch app') w)))"

definition Application_startCompletionHandler ::
  "Application \<Rightarrow> Pod \<Rightarrow> World \<Rightarrow> Application \<times> World" where
  "Application_startCompletionHandler app pod w =
     (if list_ex (\<lambda>(name, val). name = SparkLabelRole \<and> val = SparkLabelRoleDriver) (pod_Labels pod)
      then Application_startSparkCompletionHandler app pod w
      else (app, w))"







section \<open>The scheduler cache\<close>

text \<open>
  Modelled from the spec: the orchestrator cache (\<open>external.SchedulerCache\<close> with
  \<open>GetPod\<close>, \<open>GetNode\<close>, \<open>AssumePod\<close>, \<open>ForgetPod\<close> and \<open>ArePodVolumesAllBound\<close>; the
  package is not among the sources). The cache mirrors the orchestrator's pods and nodes
  and keeps the assume bookkeeping: assuming records the assumed pod together with the
  flag \<open>allBound\<close>, forgetting removes the assumed pod, and a pod that is not there to
  forget is not an error. A pod is identified by its UID, a node by its name. A lookup of
  a pod that is assumed yields the assumed pod, as the context's volume binding expects.
\<close>

record SchedulerCache =
  cachedPods :: "Pod list"
  cachedNodes :: "Node list"
  assumedPods :: "(Pod \<times> bool) list"

definition GetPod :: "SchedulerCache \<Rightarrow> string \<Rightarrow> Pod option" where
  "GetPod c podKey =
     (case find (\<lambda>(assumedPod, allBound). pod_UID assumedPod = podKey) (assumedPods c) of
        Some (assumedPod, allBound) \<Rightarrow> Some assumedPod
      | None \<Rightarrow> find (\<lambda>pod. pod_UID pod = podKey) (cachedPods c))"

definition GetNode :: "SchedulerCache \<Rightarrow> string \<Rightarrow> Node option" where
  "GetNode c nodeName = find (\<lambda>n. node_Name n = nodeName) (cachedNodes c)"

definition IsAssumedPod :: "SchedulerCache \<Rightarrow> string \<Rightarrow> bool" where
  "IsAssumedPod c podKey = list_ex (\<lambda>(assumedPod, allBound). pod_UID assumedPod = podKey) (assumedPods c)"

definition ArePodVolumesAllBound :: "SchedulerCache \<Rightarrow> string \<Rightarrow> bool" where
  "ArePodVolumesAllBound c podKey =
     (case find (\<lambda>(assumedPod, allBound). pod_UID assumedPod = podKey) (assumedPods c) of
        Some (assumedPod, allBound) \<Rightarrow> allBound
      | None \<Rightarrow> False)"

definition SchedulerCache_ForgetPod :: "SchedulerCache \<Rightarrow> Pod \<Rightarrow> error option \<times> SchedulerCache" where
  "SchedulerCache_ForgetPod c pod =
     (None, c\<lparr>assumedPods :=
                filter (\<lambda>(assumedPod, allBound). pod_UID assumedPod \<noteq> pod_UID pod) (assumedPods c)\<rparr>)"

definition SchedulerCache_AssumePod ::
  "SchedulerCache \<Rightarrow> Pod \<Rightarrow> bool \<Rightarrow> error option \<times> SchedulerCache" where
  "SchedulerCache_AssumePod c pod allBound =
     (None, c\<lparr>assumedPods :=
                (pod, allBound)
                # filter (\<lambda>(assumedPod, allBound). pod_UID assumedPod \<noteq> pod_UID pod) (assumedPods c)\<rparr>)"

section \<open>Nodes\<close>

text \<open>
  Modelled from the spec: the scheduler-side node (its source file is not among the
  sources) with its name and state, and the helpers of package common that
  \<open>updateNode\<close> calls: \<open>GetNodeResource\<close> reads the node's resource vector,
  \<open>Equals\<close> compares two vectors component-wise (integer-valued per resource kind; the
  order of the keys is irrelevant), \<open>CreateFrom\<close> and
  \<open>CreateUpdateRequestForUpdatedNode\<close> build the \<open>UpdatedNodes\<close> request for a node.
\<close>

record SchedulerNode =
  sn_name :: string
  sn_uid :: string
  sn_state :: NodeState

record common_Node =
  cn_name :: string
  cn_uid :: string
  cn_resource :: Resource

definition GetNodeResource :: "Node \<Rightarrow> Resource" where
  "GetNodeResource n = node_Allocatable n"

definition Equals :: "Resource \<Rightarrow> Resource \<Rightarrow> bool" where
  "Equals left right =
     list_all (\<lambda>k. map_of left k = map_of right k) (map fst left @ map fst right)"

definition CreateFrom :: "Node \<Rightarrow> common_Node" where
  "CreateFrom n = \<lparr>cn_name = node_Name n, cn_uid = node_UID n, cn_resource = GetNodeResource n\<rparr>"

definition CreateUpdateRequestForUpdatedNode :: "common_Node \<Rightarrow> World \<Rightarrow> UpdateRequest" where
  "CreateUpdateRequestForUpdatedNode n w =
     \<lparr>NewApplications = [],
      UpdatedNodes = [\<lparr>uni_NodeID = cn_name n, uni_SchedulableResource = cn_resource n\<rparr>],
      RmID = conf_ClusterID w\<rparr>"

text \<open>The scheduler API the nodes report to (\<open>proxy\<close>) is the one of \<open>World\<close>.\<close>

record schedulerNodes =
  nodesMap :: "string \<rightharpoonup> SchedulerNode"

definition equals :: "Node \<Rightarrow> Node \<Rightarrow> bool" where
  "equals n1 n2 = Equals (GetNodeResource n1) (GetNodeResource n2)"

definition drainNode :: "schedulerNodes \<Rightarrow> Node \<Rightarrow> World \<Rightarrow> World" where
  "drainNode nc n w =
     (case nodesMap nc (node_Name n) of
        Some node \<Rightarrow>
          (if sn_state node = Node_Healthy
           then Dispatch (CachedSchedulerNodeEvent (sn_name node) DrainNode) w
           else w)
      | None \<Rightarrow> w)"

definition restoreNode :: "schedulerNodes \<Rightarrow> Node \<Rightarrow> World \<Rightarrow> World" where
  "restoreNode nc n w =
     (case nodesMap nc (node_Name n) of
        Some node \<Rightarrow>
          (if sn_state node = Node_Draining
           then Dispatch (CachedSchedulerNodeEvent (sn_name node) RestoreNode) w
           else w)
      | None \<Rightarrow> w)"

text \<open>\<open>schedulerNodes.updateNode\<close>; an error of the remote call is only logged.\<close>

definition updateNode :: "schedulerNodes \<Rightarrow> Node \<Rightarrow> Node \<Rightarrow> World \<Rightarrow> World" where
  "updateNode nc oldNode newNode w =
     (let w1 = (if \<not> node_Unschedulable oldNode \<and> node_Unschedulable newNode
                then drainNode nc newNode w
                else if node_Unschedulable oldNode \<and> \<not> node_Unschedulable newNode
                then restoreNode nc newNode w
                else w)
      in if equals oldNode newNode then w1
         else snd (SchedulerAPI_Update
                     (CreateUpdateRequestForUpdatedNode (CreateFrom newNode) w1) w1))"

section \<open>Context\<close>

text \<open>
  \<open>VolumeBinder\<close> is optional (nil in unit tests); its \<open>AssumePodVolumes\<close> answers with
  an error or with whether all volumes of the pod are bound.
\<close>

record Context =
  applications :: "string \<rightharpoonup> Application"
  nodes :: schedulerNodes
  schedulerCache :: SchedulerCache
  VolumeBinder :: "(Pod \<Rightarrow> string \<Rightarrow> error + bool) option"

record ApplicationMetadata =
  am_ApplicationID :: string
  am_QueueName :: string
  am_User :: string
  am_Tags :: "(string \<times> string) list"

record AddApplicationRequest =
  app_Metadata :: ApplicationMetadata
  app_Recovery :: bool

record TaskMetadata =
  tm_ApplicationID :: string
  tm_TaskID :: string
  tm_Pod :: Pod

record AddTaskRequest =
  task_Metadata :: TaskMetadata
  task_Recovery :: bool

text \<open>
  \<open>Context.AssumePod\<close>: the node name is stamped on a copy of the cached pod; when the
  pod or the node is not in the cache the function falls through to \<open>return nil\<close>.
\<close>

definition Context_AssumePod :: "Context \<Rightarrow> string \<Rightarrow> string \<Rightarrow> error option \<times> Context" where
  "Context_AssumePod ctx name node =
     (case GetPod (schedulerCache ctx) name of
        Some pod \<Rightarrow>
          (case GetNode (schedulerCache ctx) node of
             Some targetNode \<Rightarrow>
               (let assumedPod = pod;
                    bound = (case VolumeBinder ctx of
                               None \<Rightarrow> Inr True
                             | Some vb \<Rightarrow> vb pod node)
                in case bound of
                     Inl err \<Rightarrow> (Some err, ctx)
                   | Inr allBound \<Rightarrow>
                       (case SchedulerCache_AssumePod (schedulerCache ctx)
                               (assumedPod\<lparr>pod_NodeName := node\<rparr>) allBound of
                          (err, c) \<Rightarrow> (err, ctx\<lparr>schedulerCache := c\<rparr>)))
           | None \<Rightarrow> (None, ctx))
      | None \<Rightarrow> (None, ctx))"

definition Context_ForgetPod :: "Context \<Rightarrow> string \<Rightarrow> error option \<times> Context" where
  "Context_ForgetPod ctx name =
     (case GetPod (schedulerCache ctx) name of
        Some pod \<Rightarrow>
          (case SchedulerCache_ForgetPod (schedulerCache ctx) pod of
             (err, c) \<Rightarrow> (err, ctx\<lparr>schedulerCache := c\<rparr>))
      | None \<Rightarrow> (None, ctx))"

definition Context_GetApplication :: "Context \<Rightarrow> string \<Rightarrow> Application option" where
  "Context_GetApplication ctx appID = applications ctx appID"

definition Context_AddApplication ::
  "Context \<Rightarrow> AddApplicationRequest \<Rightarrow> World \<Rightarrow> Application \<times> Context \<times> World" where
  "Context_AddApplication ctx request w =
     (let app = NewApplication (am_ApplicationID (app_Metadata request))
                  (am_QueueName (app_Metadata request)) (am_User (app_Metadata request))
                  (am_Tags (app_Metadata request));
          ctx' = ctx\<lparr>applications := (applications ctx)(applicationID app \<mapsto> app)\<rparr>;
          w' = (if app_Recovery request \<and> sm app = New
                then Dispatch (ApplicationEvent (applicationID app) RecoverApplication) w
                else w)
      in (app, ctx', w'))"

text \<open>
  \<open>Context.AddTask\<close>: the application is a pointer held by the registry, so adding the
  task updates the registry's entry.
\<close>

definition Context_AddTask :: "Context \<Rightarrow> AddTaskRequest \<Rightarrow> Context" where
  "Context_AddTask ctx request =
     (case Context_GetApplication ctx (tm_ApplicationID (task_Metadata request)) of
        Some app \<Rightarrow>
          (case Application_GetTask app (tm_TaskID (task_Metadata request)) of
             Inl err \<Rightarrow>
               (let task = NewTask (tm_TaskID (task_Metadata request)) app
                             (tm_Pod (task_Metadata request));
                    task' = (if task_Recovery request
                             then setAllocated task (pod_NodeName (tm_Pod (task_Metadata request)))
                             else task)
                in ctx\<lparr>applications := (applications ctx)
                         (tm_ApplicationID (task_Metadata request) \<mapsto> Application_AddTask app task')\<rparr>)
           | Inr task \<Rightarrow> ctx)
      | None \<Rightarrow> ctx)"

text \<open>
  The handler the dispatcher's application consumer runs for each event: look the
  application up, and fire the event only when the machine can handle it.
\<close>

definition Context_ApplicationEventHandler ::
  "Context \<Rightarrow> SchedulingEvent \<Rightarrow> World \<Rightarrow> Context \<times> World" where
  "Context_ApplicationEventHandler ctx obj w =
     (case obj of
        ApplicationEvent appID ev \<Rightarrow>
          (case Context_GetApplication ctx appID of
             None \<Rightarrow> (ctx, w)
           | Some app \<Rightarrow>
               (if Application_canHandle app ev
                then (case Application_handle app ev w of
                        (err, app', w') \<Rightarrow>
                          (ctx\<lparr>applications := (applications ctx)(appID \<mapsto> app')\<rparr>, w'))
                else (ctx, w)))
      | CachedSchedulerNodeEvent nodeID ev \<Rightarrow> (ctx, w))"

section \<open>The specification's transition table\<close>

text \<open>
  The table of the specification, written from its words, to compare the machine of
  \<open>NewApplication\<close> with: for each verb the states it may fire from and its target.
\<close>

fun spec_From :: "ApplicationEventType \<Rightarrow> ApplicationState list" where
  "spec_From SubmitApplication = [New]"
| "spec_From RecoverApplication = [New]"
| "spec_From AcceptApplication = [Submitted, Recovering]"
| "spec_From RunApplication = [Accepted, Running]"
| "spec_From CompleteApplication = [Running]"
| "spec_From RejectApplication = [Submitted]"
| "spec_From FailApplication = [Submitted, Rejected, Accepted, Running]"
| "spec_From KillApplication = [Accepted, Running]"
| "spec_From KilledApplication = [Killing]"

fun spec_To :: "ApplicationEventType \<Rightarrow> ApplicationState" where
  "spec_To SubmitApplication = Submitted"
| "spec_To RecoverApplication = Recovering"
| "spec_To AcceptApplication = Accepted"
| "spec_To RunApplication = Running"
| "spec_To CompleteApplication = Completed"
| "spec_To RejectApplication = Rejected"
| "spec_To FailApplication = Failed"
| "spec_To KillApplication = Killing"
| "spec_To KilledApplication = Killed"


section \<open>Example values\<close>

definition world0 :: World where
  "world0 = \<lparr>dispatched = [], updates = [], core = (\<lambda>request. None), goroutines = [],
             conf_ClusterID = ''test-cluster''\<rparr>"

definition pod_t1 :: Pod where
  "pod_t1 = \<lparr>pod_Name = ''t1'', pod_Namespace = ''default'', pod_UID = ''t1'',
             pod_Labels = [(''applicationId'', ''app-04''), (''role'', ''driver'')],
             pod_NodeName = [], pod_Phase = PodPending\<rparr>"

definition node_n1 :: Node where
  "node_n1 = \<lparr>node_Name = ''n1'', node_UID = ''uid-n1'', node_Unschedulable = False,
              node_Allocatable = [(''cpu'', 4000), (''memory'', 8192)]\<rparr>"

definition node_n2 :: Node where
  "node_n2 = \<lparr>node_Name = ''n2'', node_UID = ''uid-n2'', node_Unschedulable = False,
              node_Allocatable = [(''memory'', 8192), (''cpu'', 4000)]\<rparr>"

definition nodes0 :: schedulerNodes where
  "nodes0 = \<lparr>nodesMap = Map.empty\<rparr>"

definition ctx_empty :: Context where
  "ctx_empty = \<lparr>applications = Map.empty, nodes = nodes0,
                schedulerCache = \<lparr>cachedPods = [], cachedNodes = [], assumedPods = []\<rparr>,
                VolumeBinder = None\<rparr>"

definition ctx_cached :: Context where
  "ctx_cached = \<lparr>applications = Map.empty, nodes = nodes0,
                 schedulerCache = \<lparr>cachedPods = [pod_t1], cachedNodes = [node_n1, node_n2],
                                   assumedPods = []\<rparr>,
                 VolumeBinder = None\<rparr>"

definition ctx_assumed :: Context where
  "ctx_assumed = \<lparr>applications = Map.empty, nodes = nodes0,
                  schedulerCache = \<lparr>cachedPods = [pod_t1], cachedNodes = [node_n1, node_n2],
                                    assumedPods = [(pod_t1\<lparr>pod_NodeName := ''n1''\<rparr>, True)]\<rparr>,
                  VolumeBinder = None\<rparr>"

definition app_04 :: Application where
  "app_04 = NewApplication ''app-04'' ''root.default'' ''alice'' []"

definition app_02 :: Application where
  "app_02 = (NewApplication ''app-02'' ''root.unknown'' ''alice'' [])\<lparr>sm := Submitted\<rparr>"

definition ctx_app02 :: Context where
  "ctx_app02 = ctx_empty\<lparr>applications := [''app-02'' \<mapsto> app_02]\<rparr>"

definition task_t1 :: Task where
  "task_t1 = NewTask ''t1'' app_04 pod_t1"

definition app_04_running :: Application where
  "app_04_running = app_04\<lparr>taskMap := [''t1'' \<mapsto> task_t1], sm := Running\<rparr>"

definition ctx_app04 :: Context where
  "ctx_app04 = ctx_empty\<lparr>applications := [''app-04'' \<mapsto> app_04_running]\<rparr>"

definition request_app04 :: AddApplicationRequest where
  "request_app04 =
     \<lparr>app_Metadata = \<lparr>am_ApplicationID = ''app-04'', am_QueueName = ''root.default'',
                       am_User = ''alice'', am_Tags = []\<rparr>,
      app_Recovery = False\<rparr>"

definition request_t1 :: AddTaskRequest where
  "request_t1 =
     \<lparr>task_Metadata = \<lparr>tm_ApplicationID = ''app-04'', tm_TaskID = ''t1'', tm_Pod = pod_t1\<rparr>,
      task_Recovery = False\<rparr>"

section \<open>The application machine against the specification's table\<close>

lemma transitions_application_events:
  "transitions application_events (ev, s) =
     (if s \<in> set (spec_From ev) then Some (spec_To ev) else None)"
  by (cases ev; cases s; simp add: transitions_def application_events_def)

lemma application_events_known:
  "list_ex (\<lambda>e. Name e = ev \<and> Src e \<noteq> []) application_events"
  by (cases ev; simp add: application_events_def)

lemma fsm_Event_application_events:
  "fsm_Event application_events s ev =
     (if s \<in> set (spec_From ev)
      then (if s = spec_To ev then (Some NoTransitionError, s, True)
            else (None, spec_To ev, True))
      else (Some InvalidEventError, s, False))"
  by (simp add: fsm_Event_def transitions_application_events application_events_known)

lemma Application_handle_cases:
  "Application_handle app ev w =
     (if sm app \<in> set (spec_From ev)
      then (None, app\<lparr>sm := spec_To ev\<rparr>, application_callbacks ev app w)
      else (Some (FsmError InvalidEventError), app, w))"
  by (simp add: Application_handle_def fsm_Event_application_events Let_def)

lemma Application_canHandle_iff:
  "Application_canHandle app ev = (sm app \<in> set (spec_From ev))"
  by (simp add: Application_canHandle_def fsm_Can_def transitions_application_events)

text \<open>
  C2. The application machine admits exactly the transitions of the specification's
  table. For every application and verb: the verb can be handled exactly when the current
  state is in the verb's From set; in that case firing it succeeds and moves the
  application to the table's To state; in every other case firing it returns an error and
  leaves the application and the world as they were.
\<close>

theorem application_machine_matches_table:
  "Application_canHandle app ev = (sm app \<in> set (spec_From ev)) \<and>
   (if sm app \<in> set (spec_From ev)
    then fst (Application_handle app ev w) = None
       \<and> fst (snd (Application_handle app ev w)) = app\<lparr>sm := spec_To ev\<rparr>
    else Application_handle app ev w = (Some (FsmError InvalidEventError), app, w))"
  by (simp add: Application_canHandle_iff Application_handle_cases)

theorem application_machine_matches_table_witness:
  "Application_canHandle app_04 SubmitApplication \<and>
   fst (Application_handle app_04 SubmitApplication world0) = None \<and>
   sm (fst (snd (Application_handle app_04 SubmitApplication world0))) = Submitted \<and>
   \<not> Application_canHandle app_04 RunApplication \<and>
   Application_handle app_04 RunApplication world0
     = (Some (FsmError InvalidEventError), app_04, world0)"
  using application_machine_matches_table[of app_04 SubmitApplication world0]
    application_machine_matches_table[of app_04 RunApplication world0]
  by (simp add: app_04_def NewApplication_def)

text \<open>
  C3. \<open>Application.handle\<close> returns success when the machine reports the same-state
  \<open>no transition\<close> sentinel; when the machine reports any other error, that error is
  returned to the caller and the application (its state included) is unchanged.
\<close>

theorem handle_no_transition_is_success:
  "(fst (fsm_Event application_events (sm app) ev) = Some NoTransitionError \<longrightarrow>
      fst (Application_handle app ev w) = None) \<and>
   (\<forall>e. fst (fsm_Event application_events (sm app) ev) = Some e \<and> e \<noteq> NoTransitionError \<longrightarrow>
      Application_handle app ev w = (Some (FsmError e), app, w))"
  by (auto simp add: Application_handle_def fsm_Event_def Let_def split: option.splits if_splits)

theorem handle_no_transition_is_success_witness:
  "fst (fsm_Event application_events Running RunApplication) = Some NoTransitionError \<and>
   fst (Application_handle (app_04\<lparr>sm := Running\<rparr>) RunApplication world0) = None \<and>
   fst (fsm_Event application_events New RejectApplication) = Some InvalidEventError \<and>
   Application_handle app_04 RejectApplication world0
     = (Some (FsmError InvalidEventError), app_04, world0)"
  using handle_no_transition_is_success[of "app_04\<lparr>sm := Running\<rparr>" RunApplication world0]
    handle_no_transition_is_success[of app_04 RejectApplication world0]
  by (simp add: fsm_Event_application_events app_04_def NewApplication_def)

text \<open>
  C6. An application in state Submitted that handles RejectApplication moves to Rejected;
  its callback dispatches FailApplication for the application and sends nothing to
  scheduler-core; and when the dispatcher delivers that event, the application moves from
  Rejected to Failed, again without a request to scheduler-core.
\<close>

theorem reject_then_fail:
  assumes "applications ctx appID = Some app"
      and "applicationID app = appID"
      and "sm app = Submitted"
  shows "Application_handle app RejectApplication w =
           (None, app\<lparr>sm := Rejected\<rparr>,
            w\<lparr>dispatched := dispatched w @ [ApplicationEvent appID FailApplication]\<rparr>)
       \<and> (case Context_ApplicationEventHandler ctx (ApplicationEvent appID RejectApplication) w of
            (ctx1, w1) \<Rightarrow>
              applications ctx1 appID = Some (app\<lparr>sm := Rejected\<rparr>) \<and>
              dispatched w1 = dispatched w @ [ApplicationEvent appID FailApplication] \<and>
              updates w1 = updates w \<and>
              (case Context_ApplicationEventHandler ctx1 (last (dispatched w1)) w1 of
                 (ctx2, w2) \<Rightarrow>
                   applications ctx2 appID = Some (app\<lparr>sm := Failed\<rparr>) \<and>
                   updates w2 = updates w))"
  using assms
  by (simp add: Context_ApplicationEventHandler_def Context_GetApplication_def
      Application_canHandle_iff Application_handle_cases handleRejectApplicationEvent_def
      Dispatch_def)

theorem reject_then_fail_witness:
  "applications ctx_app02 ''app-02'' = Some app_02 \<and> sm app_02 = Submitted \<and>
   Application_handle app_02 RejectApplication world0 =
     (None, app_02\<lparr>sm := Rejected\<rparr>,
      world0\<lparr>dispatched := [ApplicationEvent ''app-02'' FailApplication]\<rparr>)"
  using reject_then_fail[of ctx_app02 "''app-02''" app_02 world0]
  by (simp add: ctx_app02_def app_02_def NewApplication_def world0_def)

section \<open>Assuming and forgetting pods\<close>

lemma GetPod_UID: "GetPod c k = Some p \<Longrightarrow> pod_UID p = k"
  by (auto simp add: GetPod_def find_Some_iff split: option.splits)

lemma filter_not_assumed:
  "\<not> IsAssumedPod c k \<Longrightarrow>
   filter (\<lambda>(p, b). pod_UID p \<noteq> k) (assumedPods c) = assumedPods c"
  by (auto simp add: IsAssumedPod_def list_ex_iff filter_id_conv)

lemma GetPod_after_AssumePod:
  "GetPod (snd (SchedulerCache_AssumePod c pod allBound)) (pod_UID pod) = Some pod"
  by (simp add: GetPod_def SchedulerCache_AssumePod_def)

text \<open>
  C1 (as amended). For every call \<open>AssumePod(name, node)\<close>: if the pod or the node is not
  in the scheduler cache, the call returns nil (no error) and the context, the cache
  included, is unchanged.
\<close>

theorem AssumePod_missing_returns_nil:
  "GetPod (schedulerCache ctx) name = None \<or> GetNode (schedulerCache ctx) node = None
   \<Longrightarrow> Context_AssumePod ctx name node = (None, ctx)"
  by (auto simp add: Context_AssumePod_def split: option.splits)

theorem AssumePod_missing_returns_nil_witness:
  "GetPod (schedulerCache ctx_cached) ''t9'' = None \<and>
   Context_AssumePod ctx_cached ''t9'' ''n1'' = (None, ctx_cached) \<and>
   GetNode (schedulerCache ctx_cached) ''n9'' = None \<and>
   Context_AssumePod ctx_cached ''t1'' ''n9'' = (None, ctx_cached)"
  using AssumePod_missing_returns_nil[of ctx_cached "''t9''" "''n1''"]
    AssumePod_missing_returns_nil[of ctx_cached "''t1''" "''n9''"]
  by (simp add: ctx_cached_def GetPod_def GetNode_def pod_t1_def node_n1_def node_n2_def)

text \<open>
  The claim as stated fails: with neither the pod nor the node in the cache, \<open>AssumePod\<close>
  returns no error.
\<close>

theorem AssumePod_missing_is_not_an_error:
  "GetPod (schedulerCache ctx_empty) ''t1'' = None \<and>
   GetNode (schedulerCache ctx_empty) ''n1'' = None \<and>
   fst (Context_AssumePod ctx_empty ''t1'' ''n1'') = None"
  by (simp add: ctx_empty_def GetPod_def GetNode_def Context_AssumePod_def)

text \<open>
  C4 (as amended). For every pod and node both present in the scheduler cache, the pod
  not being assumed already, \<open>AssumePod\<close> followed by \<open>ForgetPod\<close> returns the context and
  its cache to the prior state, whatever the volume service answers; and assuming leaves
  the cached original pods as they were (the node name is stamped on a copy).
\<close>

theorem assume_then_forget_restores:
  assumes "GetPod (schedulerCache ctx) name = Some pod"
      and "GetNode (schedulerCache ctx) node = Some targetNode"
      and "\<not> IsAssumedPod (schedulerCache ctx) name"
  shows "snd (Context_ForgetPod (snd (Context_AssumePod ctx name node)) name) = ctx
       \<and> cachedPods (schedulerCache (snd (Context_AssumePod ctx name node)))
           = cachedPods (schedulerCache ctx)"
proof -
  have uid: "pod_UID pod = name"
    using assms(1) by (rule GetPod_UID)
  have keep: "filter (\<lambda>(p, b). pod_UID p \<noteq> name) (assumedPods (schedulerCache ctx))
                = assumedPods (schedulerCache ctx)"
    using assms(3) by (rule filter_not_assumed)
  show ?thesis
  proof (cases "case VolumeBinder ctx of None \<Rightarrow> Inr True | Some vb \<Rightarrow> vb pod node")
    case (Inl err)
    then have "Context_AssumePod ctx name node = (Some err, ctx)"
      using assms by (simp add: Context_AssumePod_def)
    then show ?thesis
      using assms keep uid by (simp add: Context_ForgetPod_def SchedulerCache_ForgetPod_def)
  next
    case (Inr allBound)
    let ?assumed = "pod\<lparr>pod_NodeName := node\<rparr>"
    have a: "Context_AssumePod ctx name node =
        (None, ctx\<lparr>schedulerCache :=
                     snd (SchedulerCache_AssumePod (schedulerCache ctx) ?assumed allBound)\<rparr>)"
      using Inr assms by (simp add: Context_AssumePod_def SchedulerCache_AssumePod_def)
    have g: "GetPod (snd (SchedulerCache_AssumePod (schedulerCache ctx) ?assumed allBound)) name
               = Some ?assumed"
      using GetPod_after_AssumePod[of "schedulerCache ctx" ?assumed allBound] uid by simp
    show ?thesis
      using a g keep uid
      by (simp add: Context_ForgetPod_def SchedulerCache_ForgetPod_def SchedulerCache_AssumePod_def)
  qed
qed

theorem assume_then_forget_restores_witness:
  "GetPod (schedulerCache ctx_cached) ''t1'' = Some pod_t1 \<and>
   GetNode (schedulerCache ctx_cached) ''n1'' = Some node_n1 \<and>
   \<not> IsAssumedPod (schedulerCache ctx_cached) ''t1'' \<and>
   snd (Context_ForgetPod (snd (Context_AssumePod ctx_cached ''t1'' ''n1'')) ''t1'') = ctx_cached"
  using assume_then_forget_restores[of ctx_cached "''t1''" pod_t1 "''n1''" node_n1]
  by (simp add: ctx_cached_def GetPod_def GetNode_def IsAssumedPod_def pod_t1_def node_n1_def
      node_n2_def)

text \<open>
  The claim as stated fails for a pod that is assumed already: pod t1 is in the cache,
  assumed on node n1; after \<open>AssumePod(t1, n2)\<close> and \<open>ForgetPod(t1)\<close> a lookup of t1 no
  longer shows it on n1, and t1 is no longer assumed.
\<close>

theorem assume_then_forget_loses_earlier_assumption:
  "GetPod (schedulerCache ctx_assumed) ''t1'' = Some (pod_t1\<lparr>pod_NodeName := ''n1''\<rparr>) \<and>
   GetNode (schedulerCache ctx_assumed) ''n2'' = Some node_n2 \<and>
   IsAssumedPod (schedulerCache ctx_assumed) ''t1'' \<and>
   GetPod (schedulerCache
            (snd (Context_ForgetPod (snd (Context_AssumePod ctx_assumed ''t1'' ''n2'')) ''t1'')))
      ''t1'' = Some pod_t1 \<and>
   \<not> IsAssumedPod (schedulerCache
            (snd (Context_ForgetPod (snd (Context_AssumePod ctx_assumed ''t1'' ''n2'')) ''t1'')))
      ''t1'' \<and>
   pod_t1 \<noteq> pod_t1\<lparr>pod_NodeName := ''n1''\<rparr>"
  by (simp add: ctx_assumed_def GetPod_def GetNode_def IsAssumedPod_def Context_AssumePod_def
      Context_ForgetPod_def SchedulerCache_AssumePod_def SchedulerCache_ForgetPod_def
      pod_t1_def node_n1_def node_n2_def)

text \<open>
  C5. \<open>ForgetPod\<close> is idempotent: for a name that is not in the scheduler cache it
  returns nil and leaves the context unchanged; it never returns an error; and a second
  call for the same name returns nil and changes nothing more.
\<close>

theorem ForgetPod_idempotent:
  "(GetPod (schedulerCache ctx) name = None \<longrightarrow> Context_ForgetPod ctx name = (None, ctx)) \<and>
   fst (Context_ForgetPod ctx name) = None \<and>
   Context_ForgetPod (snd (Context_ForgetPod ctx name)) name
     = (None, snd (Context_ForgetPod ctx name))"
proof (cases "GetPod (schedulerCache ctx) name")
  case None
  then show ?thesis by (simp add: Context_ForgetPod_def)
next
  case (Some pod)
  then have uid: "pod_UID pod = name" by (rule GetPod_UID)
  let ?c = "(schedulerCache ctx)\<lparr>assumedPods :=
              filter (\<lambda>(p, b). pod_UID p \<noteq> name) (assumedPods (schedulerCache ctx))\<rparr>"
  have first: "Context_ForgetPod ctx name = (None, ctx\<lparr>schedulerCache := ?c\<rparr>)"
    using Some uid by (simp add: Context_ForgetPod_def SchedulerCache_ForgetPod_def)
  have second: "Context_ForgetPod (ctx\<lparr>schedulerCache := ?c\<rparr>) name
                  = (None, ctx\<lparr>schedulerCache := ?c\<rparr>)"
  proof (cases "GetPod ?c name")
    case None
    then show ?thesis by (simp add: Context_ForgetPod_def)
  next
    case (Some pod')
    then have "pod_UID pod' = name" by (rule GetPod_UID)
    then show ?thesis
      using Some by (simp add: Context_ForgetPod_def SchedulerCache_ForgetPod_def)
  qed
  show ?thesis using Some first second by simp
qed

theorem ForgetPod_idempotent_witness:
  "GetPod (schedulerCache ctx_cached) ''t9'' = None \<and>
   Context_ForgetPod ctx_cached ''t9'' = (None, ctx_cached) \<and>
   Context_ForgetPod (snd (Context_ForgetPod ctx_assumed ''t1'')) ''t1''
     = (None, snd (Context_ForgetPod ctx_assumed ''t1''))"
  using ForgetPod_idempotent[of ctx_cached "''t9''"] ForgetPod_idempotent[of ctx_assumed "''t1''"]
  by (simp add: ctx_cached_def GetPod_def pod_t1_def)

section \<open>Node updates\<close>

lemma Equals_iff: "Equals left right = (\<forall>k. map_of left k = map_of right k)"
proof
  assume e: "Equals left right"
  show "\<forall>k. map_of left k = map_of right k"
  proof
    fix k
    show "map_of left k = map_of right k"
    proof (cases "k \<in> fst ` set left \<union> fst ` set right")
      case True
      then show ?thesis using e by (auto simp add: Equals_def list_all_iff)
    next
      case False
      then have "map_of left k = None" and "map_of right k = None"
        by (simp_all add: map_of_eq_None_iff)
      then show ?thesis by simp
    qed
  qed
next
  assume "\<forall>k. map_of left k = map_of right k"
  then show "Equals left right" by (simp add: Equals_def list_all_iff)
qed

lemma Dispatch_keeps_updates:
  "updates (Dispatch ev w) = updates w" "conf_ClusterID (Dispatch ev w) = conf_ClusterID w"
  by (simp_all add: Dispatch_def)

lemma drainNode_keeps_updates:
  "updates (drainNode nc n w) = updates w" "conf_ClusterID (drainNode nc n w) = conf_ClusterID w"
  by (simp_all add: drainNode_def Dispatch_keeps_updates split: option.splits)

lemma restoreNode_keeps_updates:
  "updates (restoreNode nc n w) = updates w"
  "conf_ClusterID (restoreNode nc n w) = conf_ClusterID w"
  by (simp_all add: restoreNode_def Dispatch_keeps_updates split: option.splits)

text \<open>
  C7. For every \<open>updateNode(oldNode, newNode)\<close>: when the two resource vectors agree on
  every resource kind (whatever the order of their keys), no request is sent to
  scheduler-core; when some component differs, exactly one request is sent, an
  \<open>UpdatedNodes\<close> request for the new node.
\<close>

theorem updateNode_reports_iff_resources_differ:
  "updates (updateNode nc oldNode newNode w) =
     (if \<forall>k. map_of (GetNodeResource oldNode) k = map_of (GetNodeResource newNode) k
      then updates w
      else updates w @ [\<lparr>NewApplications = [],
                          UpdatedNodes = [\<lparr>uni_NodeID = node_Name newNode,
                                           uni_SchedulableResource = GetNodeResource newNode\<rparr>],
                          RmID = conf_ClusterID w\<rparr>])"
  by (simp add: updateNode_def equals_def Equals_iff Let_def SchedulerAPI_Update_def
      CreateUpdateRequestForUpdatedNode_def CreateFrom_def drainNode_keeps_updates
      restoreNode_keeps_updates)

theorem updateNode_reports_iff_resources_differ_witness:
  "GetNodeResource node_n1 = [(''cpu'', 4000), (''memory'', 8192)] \<and>
   GetNodeResource node_n2 = [(''memory'', 8192), (''cpu'', 4000)] \<and>
   updates (updateNode nodes0 node_n1 node_n2 world0) = [] \<and>
   updates (updateNode nodes0 node_n1
              (node_n1\<lparr>node_Allocatable := [(''cpu'', 2000), (''memory'', 8192)]\<rparr>) world0) =
     [\<lparr>NewApplications = [],
       UpdatedNodes = [\<lparr>uni_NodeID = ''n1'',
                        uni_SchedulableResource = [(''cpu'', 2000), (''memory'', 8192)]\<rparr>],
       RmID = ''test-cluster''\<rparr>]"
proof -
  let ?n = "node_n1\<lparr>node_Allocatable := [(''cpu'', 2000), (''memory'', 8192)]\<rparr>"
  have same: "\<forall>k. map_of (GetNodeResource node_n1) k = map_of (GetNodeResource node_n2) k"
    by (simp add: GetNodeResource_def node_n1_def node_n2_def)
  have "map_of (GetNodeResource node_n1) ''cpu'' \<noteq> map_of (GetNodeResource ?n) ''cpu''"
    by (simp add: GetNodeResource_def node_n1_def)
  then have diff: "\<not> (\<forall>k. map_of (GetNodeResource node_n1) k = map_of (GetNodeResource ?n) k)"
    by blast
  show ?thesis
    using updateNode_reports_iff_resources_differ[of nodes0 node_n1 node_n2 world0] same
      updateNode_reports_iff_resources_differ[of nodes0 node_n1 ?n world0] diff
    by (simp add: world0_def GetNodeResource_def node_n1_def node_n2_def)
qed

section \<open>Completion handlers\<close>

text \<open>Starting the completion handler never changes the \<open>running\<close> flag.\<close>

lemma startCompletionHandler_keeps_running:
  "running (ch (fst (Application_startCompletionHandler app pod w))) = running (ch app)"
  by (simp add: Application_startCompletionHandler_def
      Application_startSparkCompletionHandler_def Let_def)

text \<open>
  C8. The claim: starting the completion handler a second time for the same driver pod
  launches no second watcher. The code: nothing sets the \<open>running\<close> flag, so the gate
  never closes. Starting the handler of application app-04 for its driver pod leaves
  \<open>running\<close> false and launches a watcher, and starting it again launches a second one.
\<close>

theorem completion_handler_started_twice:
  "(case Application_startCompletionHandler app_04 pod_t1 world0 of
      (app1, w1) \<Rightarrow>
        running (ch app1) = False \<and> goroutines w1 = [(''app-04'', pod_t1)] \<and>
        goroutines (snd (Application_startCompletionHandler app1 pod_t1 w1)) =
          [(''app-04'', pod_t1), (''app-04'', pod_t1)])"
  by (simp add: Application_startCompletionHandler_def Application_startSparkCompletionHandler_def
      CompletionHandler_start_def app_04_def NewApplication_def pod_t1_def world0_def
      SparkLabelRole_def SparkLabelRoleDriver_def Let_def)





section \<open>Adding applications and tasks\<close>

text \<open>
  C10. \<open>Context.AddApplication\<close> cannot fail on a duplicate application id: whatever the
  registry holds, it builds a fresh application (state New, no tasks) from the request
  and stores it under the request's id, replacing any application stored there. By
  contrast \<open>Context.AddTask\<close> and \<open>Application.AddTask\<close> change nothing when the task id
  exists already.
\<close>

theorem AddApplication_replaces_AddTask_skips:
  "fst (Context_AddApplication ctx request w) =
     NewApplication (am_ApplicationID (app_Metadata request)) (am_QueueName (app_Metadata request))
       (am_User (app_Metadata request)) (am_Tags (app_Metadata request)) \<and>
   sm (fst (Context_AddApplication ctx request w)) = New \<and>
   taskMap (fst (Context_AddApplication ctx request w)) = Map.empty \<and>
   applications (fst (snd (Context_AddApplication ctx request w)))
       (am_ApplicationID (app_Metadata request))
     = Some (fst (Context_AddApplication ctx request w)) \<and>
   (applications ctx (tm_ApplicationID (task_Metadata treq)) = Some app \<and>
      taskMap app (tm_TaskID (task_Metadata treq)) \<noteq> None \<longrightarrow>
      Context_AddTask ctx treq = ctx) \<and>
   (taskMap a (taskID task) \<noteq> None \<longrightarrow> Application_AddTask a task = a)"
  by (auto simp add: Context_AddApplication_def NewApplication_def Let_def Context_AddTask_def
      Context_GetApplication_def Application_GetTask_def Application_AddTask_def
      split: option.splits)

theorem AddApplication_replaces_AddTask_skips_witness:
  "applications ctx_app04 ''app-04'' = Some app_04_running \<and>
   sm app_04_running = Running \<and> taskMap app_04_running ''t1'' = Some task_t1 \<and>
   fst (Context_AddApplication ctx_app04 request_app04 world0) = app_04 \<and>
   applications (fst (snd (Context_AddApplication ctx_app04 request_app04 world0))) ''app-04''
     = Some app_04 \<and>
   sm app_04 = New \<and> taskMap app_04 = Map.empty \<and>
   Context_AddTask ctx_app04 request_t1 = ctx_app04 \<and>
   Application_AddTask app_04_running task_t1 = app_04_running"
  using AddApplication_replaces_AddTask_skips
          [of ctx_app04 request_app04 world0 request_t1 app_04_running app_04_running task_t1]
  by (simp add: ctx_app04_def request_app04_def request_t1_def app_04_def app_04_running_def
      task_t1_def NewTask_def NewApplication_def)

end
